theory Spec2Isabelle
  imports Main "HOL-Library.Word"
begin

section \<open>The transaction core of go-nebulas (core/transaction.go)\<close>

subsection \<open>Bytes, errors and the fixed-size integer codec\<close>

type_synonym byte = "8 word"
type_synonym bytes = "byte list"

text \<open>
  Go's \<open>error\<close> values. A nil error is \<open>None\<close> of \<open>error option\<close>; a function
  returning \<open>(x, err)\<close> is a sum with \<open>Inl\<close> the error. \<open>ExternalError\<close> stands for
  the errors of the collaborators (payload decoders and executors, the batch, the
  signature scheme, the protobuf marshaller).
\<close>

datatype error =
    ErrInsufficientBalance
  | ErrOutOfGasLimit
  | ErrInvalidTxPayloadType
  | ErrInvalidChainID
  | ErrInvalidTransactionHash
  | ErrInvalidTransactionSigner
  | ErrUint128Overflow
  | ErrUint128Underflow
  | ErrUint128InvalidBytesSize
  | ErrProtoMessageNotTransaction
  | ExternalError string

text \<open>
  \<open>util.Uint128\<close> embeds a \<open>*big.Int\<close>: the source does all arithmetic on the \<open>.Int\<close>
  field with \<open>Add\<close>, \<open>Sub\<close>, \<open>Mul\<close> and \<open>Cmp\<close> of \<open>big.Int\<close>, which neither wrap nor
  saturate. A \<open>Uint128\<close> value is therefore an \<open>int\<close>.
\<close>

type_synonym Uint128 = int

text \<open>Big-endian bytes of a natural number on \<open>k\<close> bytes, and back.\<close>

fun be_bytes :: "nat \<Rightarrow> nat \<Rightarrow> bytes" where
  "be_bytes 0 n = []"
| "be_bytes (Suc k) n = be_bytes k (n div 256) @ [of_nat (n mod 256)]"

definition be_nat :: "bytes \<Rightarrow> nat" where
  "be_nat bs = foldl (\<lambda>a b. a * 256 + unat b) 0 bs"

text \<open>
  Modelled from the spec: \<open>Uint128.ToFixedSizeByteSlice\<close> (package util, not in the
  source file) gives the 16-byte big-endian encoding of an unsigned 128-bit integer. The
  source checks its error result, so a value outside \<open>0 .. 2^128 - 1\<close> is an error:
  underflow below zero, overflow above 128 bits.
\<close>

definition ToFixedSizeByteSlice :: "Uint128 \<Rightarrow> error + bytes" where
  "ToFixedSizeByteSlice u =
     (if u < 0 then Inl ErrUint128Underflow
      else if 2 ^ 128 \<le> u then Inl ErrUint128Overflow
      else Inr (be_bytes 16 (nat u)))"

text \<open>
  Modelled from the spec: \<open>util.NewUint128FromFixedSizeByteSlice\<close> (package util) reads
  the 16-byte big-endian encoding back; a slice of another length is an error.
\<close>

definition NewUint128FromFixedSizeByteSlice :: "bytes \<Rightarrow> error + Uint128" where
  "NewUint128FromFixedSizeByteSlice bs =
     (if length bs \<noteq> 16 then Inl ErrUint128InvalidBytesSize
      else Inr (int (be_nat bs)))"

text \<open>
  Modelled from the spec: \<open>byteutils.FromUint64\<close>, \<open>byteutils.FromInt64\<close> and
  \<open>byteutils.FromUint32\<close> are the 8-, 8- and 4-byte big-endian encodings; the signed
  timestamp is encoded as its two's complement bit pattern.
\<close>

definition FromUint64 :: "64 word \<Rightarrow> bytes" where
  "FromUint64 v = be_bytes 8 (unat v)"

definition FromInt64 :: "64 word \<Rightarrow> bytes" where
  "FromInt64 v = be_bytes 8 (unat v)"

definition FromUint32 :: "32 word \<Rightarrow> bytes" where
  "FromUint32 v = be_bytes 4 (unat v)"

subsection \<open>The transaction and its wire message\<close>

text \<open>\<open>corepb.Data\<close>: the payload descriptor.\<close>

record Data =
  Type :: string
  Payload :: bytes

text \<open>
  \<open>Transaction\<close>. The fields keep the source's names behind the prefix \<open>tx_\<close>
  (\<open>from\<close> and \<open>value\<close> are reserved words). An \<open>*Address\<close> is its byte string;
  \<open>timestamp\<close> is an \<open>int64\<close>, kept as its 64-bit pattern. The pointers \<open>from\<close>,
  \<open>to\<close>, \<open>value\<close>, \<open>data\<close>, \<open>gasPrice\<close> and \<open>gasLimit\<close> are taken to be set, as
  \<open>NewTransaction\<close> and \<open>FromProto\<close> leave them.
\<close>

record Transaction =
  tx_hash :: bytes
  tx_from :: bytes
  tx_to :: bytes
  tx_value :: Uint128
  tx_nonce :: "64 word"
  tx_timestamp :: "64 word"
  tx_data :: Data
  tx_chainID :: "32 word"
  tx_gasPrice :: Uint128
  tx_gasLimit :: Uint128
  tx_alg :: "8 word"
  tx_sign :: bytes

text \<open>\<open>corepb.Transaction\<close>: the protobuf message, with \<open>Alg\<close> a \<open>uint32\<close>.\<close>

record pbTransaction =
  pb_Hash :: bytes
  pb_From :: bytes
  pb_To :: bytes
  pb_Value :: bytes
  pb_Nonce :: "64 word"
  pb_Timestamp :: "64 word"
  pb_Data :: Data
  pb_ChainId :: "32 word"
  pb_GasPrice :: bytes
  pb_GasLimit :: bytes
  pb_Alg :: "32 word"
  pb_Sign :: bytes

text \<open>
  A \<open>proto.Message\<close> is an interface: \<open>FromProto\<close> asserts that it holds a
  \<open>*corepb.Transaction\<close>.
\<close>

datatype proto_Message = TransactionMessage pbTransaction | OtherMessage

definition ToProto :: "Transaction \<Rightarrow> error + proto_Message" where
  "ToProto tx =
     (case ToFixedSizeByteSlice (tx_value tx) of
        Inl err \<Rightarrow> Inl err
      | Inr val \<Rightarrow>
     (case ToFixedSizeByteSlice (tx_gasPrice tx) of
        Inl err \<Rightarrow> Inl err
      | Inr gasPrice \<Rightarrow>
     (case ToFixedSizeByteSlice (tx_gasLimit tx) of
        Inl err \<Rightarrow> Inl err
      | Inr gasLimit \<Rightarrow>
          Inr (TransactionMessage
            \<lparr> pb_Hash = tx_hash tx,
              pb_From = tx_from tx,
              pb_To = tx_to tx,
              pb_Value = val,
              pb_Nonce = tx_nonce tx,
              pb_Timestamp = tx_timestamp tx,
              pb_Data = tx_data tx,
              pb_ChainId = tx_chainID tx,
              pb_GasPrice = gasPrice,
              pb_GasLimit = gasLimit,
              pb_Alg = ucast (tx_alg tx),
              pb_Sign = tx_sign tx \<rparr>))))"

text \<open>
  \<open>FromProto\<close> assigns the receiver field by field and returns at the first decoding
  error, leaving the fields assigned so far: the result is the error and the receiver.
\<close>

definition FromProto :: "Transaction \<Rightarrow> proto_Message \<Rightarrow> error option \<times> Transaction" where
  "FromProto tx m =
     (case m of
        OtherMessage \<Rightarrow> (Some ErrProtoMessageNotTransaction, tx)
      | TransactionMessage msg \<Rightarrow>
          (let tx1 = tx\<lparr> tx_hash := pb_Hash msg, tx_from := pb_From msg, tx_to := pb_To msg \<rparr>
           in case NewUint128FromFixedSizeByteSlice (pb_Value msg) of
                Inl err \<Rightarrow> (Some err, tx1)
              | Inr val \<Rightarrow>
          (let tx2 = tx1\<lparr> tx_value := val, tx_nonce := pb_Nonce msg,
                            tx_timestamp := pb_Timestamp msg, tx_data := pb_Data msg,
                            tx_chainID := pb_ChainId msg \<rparr>
           in case NewUint128FromFixedSizeByteSlice (pb_GasPrice msg) of
                Inl err \<Rightarrow> (Some err, tx2)
              | Inr gasPrice \<Rightarrow>
          (let tx3 = tx2\<lparr> tx_gasPrice := gasPrice \<rparr>
           in case NewUint128FromFixedSizeByteSlice (pb_GasLimit msg) of
                Inl err \<Rightarrow> (Some err, tx3)
              | Inr gasLimit \<Rightarrow>
                  (None, tx3\<lparr> tx_gasLimit := gasLimit, tx_alg := ucast (pb_Alg msg),
                               tx_sign := pb_Sign msg \<rparr>)))))"

subsection \<open>Gas of a transaction\<close>

definition MinGasCountPerTransaction :: Uint128 where
  "MinGasCountPerTransaction = 20000"

definition GasCountPerByte :: Uint128 where
  "GasCountPerByte = 1"

definition DataLen :: "Transaction \<Rightarrow> nat" where
  "DataLen tx = length (Payload (tx_data tx))"

definition GasCountOfTxBase :: "Transaction \<Rightarrow> Uint128" where
  "GasCountOfTxBase tx =
     (let txGas = 0 + MinGasCountPerTransaction
      in if DataLen tx > 0
         then (let dataGas = int (DataLen tx) * GasCountPerByte in txGas + dataGas)
         else txGas)"

definition MinBalanceRequired :: "Transaction \<Rightarrow> Uint128" where
  "MinBalanceRequired tx = tx_gasPrice tx * tx_gasLimit tx"

subsection \<open>Canonical hash and integrity\<close>

text \<open>
  The collaborators of hashing and signature checking are parameters: the SHA3-256
  primitive, \<open>proto.Marshal\<close> on the data record, and the signature scheme with its
  public keys (\<open>crypto.NewSignature\<close>, \<open>RecoverPublic\<close>, \<open>Encoded\<close>,
  \<open>NewAddressFromPublicKey\<close>), each with the error result the source checks.
\<close>

record ('sig, 'pub) crypto =
  sha3_256 :: "bytes \<Rightarrow> bytes"
  Marshal :: "Data \<Rightarrow> error + bytes"
  NewSignature :: "8 word \<Rightarrow> error + 'sig"
  RecoverPublic :: "'sig \<Rightarrow> bytes \<Rightarrow> bytes \<Rightarrow> error + 'pub"
  Encoded :: "'pub \<Rightarrow> error + bytes"
  NewAddressFromPublicKey :: "bytes \<Rightarrow> error + bytes"

text \<open>
  Modelled from the spec: \<open>hash.Sha3256\<close> (package crypto/hash) takes byte slices and
  returns the SHA3-256 digest of their concatenation, in the order given.
\<close>

definition Sha3256 :: "('sig, 'pub) crypto \<Rightarrow> bytes list \<Rightarrow> bytes" where
  "Sha3256 c args = sha3_256 c (concat args)"

definition HashTransaction :: "('sig, 'pub) crypto \<Rightarrow> Transaction \<Rightarrow> error + bytes" where
  "HashTransaction c tx =
     (case ToFixedSizeByteSlice (tx_value tx) of
        Inl err \<Rightarrow> Inl err
      | Inr val \<Rightarrow>
     (case Marshal c (tx_data tx) of
        Inl err \<Rightarrow> Inl err
      | Inr dat \<Rightarrow>
     (case ToFixedSizeByteSlice (tx_gasPrice tx) of
        Inl err \<Rightarrow> Inl err
      | Inr gasPrice \<Rightarrow>
     (case ToFixedSizeByteSlice (tx_gasLimit tx) of
        Inl err \<Rightarrow> Inl err
      | Inr gasLimit \<Rightarrow>
          Inr (Sha3256 c
            [ tx_from tx,
              tx_to tx,
              val,
              FromUint64 (tx_nonce tx),
              FromInt64 (tx_timestamp tx),
              dat,
              FromUint32 (tx_chainID tx),
              gasPrice,
              gasLimit ])))))"



subsection \<open>The block: account state, batch and event log\<close>

text \<open>
  Modelled from the spec: the account state (package core/state) hands out accounts by
  address with \<open>GetOrCreateUserAccount\<close>; an account has a balance, read by
  \<open>Balance\<close> and changed by \<open>AddBalance\<close> and \<open>SubBalance\<close>, which add and subtract
  without a check (the caller prechecks). The store is the balance of every address, a
  never-used account reading zero, and an account handle is its address: two handles of
  one address are the same account.
\<close>

type_synonym accountState = "bytes \<Rightarrow> Uint128"

text \<open>
  Event payloads are kept as the value handed to \<open>json.Marshal\<close>: the wire message
  alone, or the message with the error. \<open>ToProto\<close>'s error is dropped by the source, so
  the message may be missing.
\<close>

datatype eventData =
    TxEvent "proto_Message option"
  | TxErrEvent "proto_Message option" error

record Event =
  Topic :: string
  EventData :: eventData

datatype batchOp = OpBeginBatch | OpCommit | OpRollBack

text \<open>
  Modelled from the spec: a batch is a set of account-state mutations that commit or roll
  back atomically. \<open>openBatches\<close> holds the snapshot of every batch that is open,
  \<open>batchLog\<close> the batch operations done so far, \<open>beginBatchErr\<close> the error
  \<open>BeginBatch\<close> will return (a failure of the store), \<open>events\<close> the events recorded
  under their transaction hash.
\<close>

record Block =
  CoinbaseHash :: bytes
  accState :: accountState
  openBatches :: "accountState list"
  batchLog :: "batchOp list"
  beginBatchErr :: "error option"
  events :: "(bytes \<times> Event) list"

definition Balance :: "bytes \<Rightarrow> Block \<Rightarrow> Uint128" where
  "Balance a blk = accState blk a"

definition AddBalance :: "bytes \<Rightarrow> Uint128 \<Rightarrow> Block \<Rightarrow> Block" where
  "AddBalance a v blk = blk\<lparr> accState := (accState blk)(a := accState blk a + v) \<rparr>"

definition SubBalance :: "bytes \<Rightarrow> Uint128 \<Rightarrow> Block \<Rightarrow> Block" where
  "SubBalance a v blk = blk\<lparr> accState := (accState blk)(a := accState blk a - v) \<rparr>"

definition BeginBatch :: "Block \<Rightarrow> error option \<times> Block" where
  "BeginBatch blk =
     (case beginBatchErr blk of
        Some err \<Rightarrow> (Some err, blk)
      | None \<Rightarrow> (None, blk\<lparr> openBatches := accState blk # openBatches blk,
                               batchLog := batchLog blk @ [OpBeginBatch] \<rparr>))"

definition Commit :: "Block \<Rightarrow> Block" where
  "Commit blk =
     (case openBatches blk of
        [] \<Rightarrow> blk
      | saved # rest \<Rightarrow> blk\<lparr> openBatches := rest, batchLog := batchLog blk @ [OpCommit] \<rparr>)"

definition RollBack :: "Block \<Rightarrow> Block" where
  "RollBack blk =
     (case openBatches blk of
        [] \<Rightarrow> blk
      | saved # rest \<Rightarrow> blk\<lparr> accState := saved, openBatches := rest,
                                 batchLog := batchLog blk @ [OpRollBack] \<rparr>)"

definition recordEvent :: "bytes \<Rightarrow> Event \<Rightarrow> Block \<Rightarrow> Block" where
  "recordEvent txHash event blk = blk\<lparr> events := events blk @ [(txHash, event)] \<rparr>"

subsection \<open>Payloads\<close>

text \<open>
  The \<open>TxPayload\<close> interface: \<open>BaseGasCount\<close> and \<open>Execute\<close>. \<open>Execute\<close> runs on the
  payload context (the transaction and the block's account state) and returns the gas
  of the execution, its error and the account state it leaves; the source reads the gas
  also when the error is set.
\<close>

record TxPayload =
  BaseGasCount :: Uint128
  Execute :: "Transaction \<Rightarrow> accountState \<Rightarrow> (Uint128 \<times> error option) \<times> accountState"

text \<open>The decoders of the five payload kinds (their files are not part of the source).\<close>

record payloadLoaders =
  LoadBinaryPayload :: "bytes \<Rightarrow> error + TxPayload"
  LoadDeployPayload :: "bytes \<Rightarrow> error + TxPayload"
  LoadCallPayload :: "bytes \<Rightarrow> error + TxPayload"
  LoadCandidatePayload :: "bytes \<Rightarrow> error + TxPayload"
  LoadDelegatePayload :: "bytes \<Rightarrow> error + TxPayload"

text \<open>Modelled from the spec: the recognised type tags and the two event topics.\<close>

definition TxPayloadBinaryType :: string where
  "TxPayloadBinaryType = ''binary''"

definition TxPayloadDeployType :: string where
  "TxPayloadDeployType = ''deploy''"

definition TxPayloadCallType :: string where
  "TxPayloadCallType = ''call''"

definition TxPayloadCandidateType :: string where
  "TxPayloadCandidateType = ''candidate''"

definition TxPayloadDelegateType :: string where
  "TxPayloadDelegateType = ''delegate''"

definition TopicExecuteTxSuccess :: string where
  "TopicExecuteTxSuccess = ''chain.executeTxSuccess''"

definition TopicExecuteTxFailed :: string where
  "TopicExecuteTxFailed = ''chain.executeTxFailed''"

definition LoadPayload :: "payloadLoaders \<Rightarrow> Transaction \<Rightarrow> error + TxPayload" where
  "LoadPayload ld tx =
     (if Type (tx_data tx) = TxPayloadBinaryType
        then LoadBinaryPayload ld (Payload (tx_data tx))
      else if Type (tx_data tx) = TxPayloadDeployType
        then LoadDeployPayload ld (Payload (tx_data tx))
      else if Type (tx_data tx) = TxPayloadCallType
        then LoadCallPayload ld (Payload (tx_data tx))
      else if Type (tx_data tx) = TxPayloadCandidateType
        then LoadCandidatePayload ld (Payload (tx_data tx))
      else if Type (tx_data tx) = TxPayloadDelegateType
        then LoadDelegatePayload ld (Payload (tx_data tx))
      else Inl ErrInvalidTxPayloadType)"


subsection \<open>Execution\<close>

definition gasConsumption :: "Transaction \<Rightarrow> bytes \<Rightarrow> bytes \<Rightarrow> Uint128 \<Rightarrow> Block \<Rightarrow> Block" where
  "gasConsumption tx frm coinbase gas blk =
     (let gasCost = tx_gasPrice tx * gas
      in AddBalance coinbase gasCost (SubBalance frm gasCost blk))"

definition triggerEvent :: "string \<Rightarrow> Transaction \<Rightarrow> error option \<Rightarrow> Block \<Rightarrow> Block" where
  "triggerEvent topic tx err blk =
     (let pbTx = (case ToProto tx of Inl e \<Rightarrow> None | Inr m \<Rightarrow> Some m);
          txData = (case err of
                      Some e \<Rightarrow> TxErrEvent pbTx e
                    | None \<Rightarrow> TxEvent pbTx)
      in recordEvent (tx_hash tx) \<lparr> Topic = topic, EventData = txData \<rparr> blk)"

text \<open>
  \<open>VerifyExecution\<close> returns the gas, the error and the block it leaves. The three
  accounts are handles into the block's account state; the metrics counters and the log
  lines are left out. Where the payload's base gas exceeds the limit, the \<open>err\<close> handed
  to \<open>triggerEvent\<close> is the variable as \<open>BeginBatch\<close> left it, the nil error.
\<close>

definition VerifyExecution ::
  "payloadLoaders \<Rightarrow> Transaction \<Rightarrow> Block \<Rightarrow> (Uint128 \<times> error option) \<times> Block" where
  "VerifyExecution ld tx block =
     (let fromAcc = tx_from tx;
          toAcc = tx_to tx;
          coinbaseAcc = CoinbaseHash block
      in if Balance fromAcc block < MinBalanceRequired tx
           then ((0, Some ErrInsufficientBalance), block)
         else
     (let gasUsed = GasCountOfTxBase tx
      in if tx_gasLimit tx < gasUsed
           then ((0, Some ErrOutOfGasLimit), block)
         else
     (case LoadPayload ld tx of
        Inl err \<Rightarrow>
          ((gasUsed, None),
           triggerEvent TopicExecuteTxFailed tx (Some err)
             (gasConsumption tx fromAcc coinbaseAcc gasUsed block))
      | Inr payload \<Rightarrow>
     (case BeginBatch block of
        (Some err, block1) \<Rightarrow> ((0, Some err), block1)
      | (None, block1) \<Rightarrow>
     (let err = (None :: error option);
          gasUsed = gasUsed + BaseGasCount payload
      in if tx_gasLimit tx < gasUsed
           then ((tx_gasLimit tx, None),
                 triggerEvent TopicExecuteTxFailed tx err
                   (gasConsumption tx fromAcc coinbaseAcc (tx_gasLimit tx) block1))
         else
     (case Execute payload tx (accState block1) of
        ((gasExecution, err), st) \<Rightarrow>
     (let block2 = block1\<lparr> accState := st \<rparr>;
          block3 = (case err of
                      Some e \<Rightarrow> RollBack block2
                    | None \<Rightarrow> Commit block2);
          gas = gasUsed + gasExecution;
          block4 = gasConsumption tx fromAcc coinbaseAcc gas block3
      in case err of
           Some e \<Rightarrow> ((gas, None), triggerEvent TopicExecuteTxFailed tx (Some e) block4)
         | None \<Rightarrow>
             (if Balance fromAcc block4 < tx_value tx
                then ((gas, None),
                      triggerEvent TopicExecuteTxFailed tx (Some ErrInsufficientBalance)
                        block4)
              else ((gas, None),
                    triggerEvent TopicExecuteTxSuccess tx None
                      (AddBalance toAcc (tx_value tx)
                         (SubBalance fromAcc (tx_value tx) block4)))))))))))"

section \<open>Example data\<close>

text \<open>
  Concrete collaborators and transactions on which the theorems below are evaluated.
  The stand-in digest keeps the last 32 bytes of its input, reversed; the stand-in
  signature scheme knows algorithm 1 only and recovers the signature bytes as the key and
  the address.
\<close>

definition exampleCrypto :: "(8 word, bytes) crypto" where
  "exampleCrypto =
     \<lparr> sha3_256 = (\<lambda>bs. take 32 (rev bs)),
       Marshal = (\<lambda>d. Inr (map (\<lambda>ch. of_nat (of_char ch)) (Type d) @ Payload d)),
       NewSignature = (\<lambda>a. if a = 1 then Inr a else Inl (ExternalError ''invalid algorithm'')),
       RecoverPublic = (\<lambda>s h sg. Inr sg),
       Encoded = (\<lambda>pub. Inr pub),
       NewAddressFromPublicKey = (\<lambda>pubdata. Inr pubdata) \<rparr>"

definition exampleHash :: bytes where
  "exampleHash = [32, 78, 0, 0, 0, 0, 0, 0, 0, 0, 0, 0, 0, 0, 0, 0,
                  64, 66, 15, 0, 0, 0, 0, 0, 0, 0, 0, 0, 0, 0, 0, 0]"

definition exampleTx :: Transaction where
  "exampleTx =
     \<lparr> tx_hash = exampleHash, tx_from = [1], tx_to = [2], tx_value = 100, tx_nonce = 1,
       tx_timestamp = 0, tx_data = \<lparr> Type = ''binary'', Payload = [] \<rparr>, tx_chainID = 1,
       tx_gasPrice = 1000000, tx_gasLimit = 20000, tx_alg = 1, tx_sign = [1] \<rparr>"

definition overflowTx :: Transaction where
  "overflowTx = exampleTx\<lparr> tx_value := 2 ^ 128 \<rparr>"


text \<open>
  Payloads, decoders and blocks: a plain transfer that costs no execution gas, a deploy
  that costs 5, a call that fails after crediting the callee 7, a candidate registration
  with base gas 20000, and a delegate decoder that rejects its input. The sender
  \<open>[1]\<close> owns \<open>10^12\<close>, every other account nothing.
\<close>

definition transferPayload :: TxPayload where
  "transferPayload = \<lparr> BaseGasCount = 0, Execute = (\<lambda>tx st. ((0, None), st)) \<rparr>"

definition deployPayload :: TxPayload where
  "deployPayload = \<lparr> BaseGasCount = 0, Execute = (\<lambda>tx st. ((5, None), st)) \<rparr>"

definition callPayload :: TxPayload where
  "callPayload =
     \<lparr> BaseGasCount = 0,
       Execute = (\<lambda>tx st. ((500, Some (ExternalError ''execution failed'')),
                             st(tx_to tx := st (tx_to tx) + 7))) \<rparr>"

definition candidatePayload :: TxPayload where
  "candidatePayload = \<lparr> BaseGasCount = 20000, Execute = (\<lambda>tx st. ((0, None), st)) \<rparr>"

definition exampleLoaders :: payloadLoaders where
  "exampleLoaders =
     \<lparr> LoadBinaryPayload = (\<lambda>bs. Inr transferPayload),
       LoadDeployPayload = (\<lambda>bs. Inr deployPayload),
       LoadCallPayload = (\<lambda>bs. Inr callPayload),
       LoadCandidatePayload = (\<lambda>bs. Inr candidatePayload),
       LoadDelegatePayload = (\<lambda>bs. Inl (ExternalError ''malformed delegate payload'')) \<rparr>"

definition exampleBlock :: Block where
  "exampleBlock =
     \<lparr> CoinbaseHash = [3],
       accState = (\<lambda>a. if a = [1] then 1000000000000 else 0),
       openBatches = [],
       batchLog = [],
       beginBatchErr = None,
       events = [] \<rparr>"

definition failingBatchBlock :: Block where
  "failingBatchBlock = exampleBlock\<lparr> beginBatchErr := Some (ExternalError ''batch in progress'') \<rparr>"

definition selfTx :: Transaction where
  "selfTx = exampleTx\<lparr> tx_to := [1] \<rparr>"

definition deployTx :: Transaction where
  "deployTx = exampleTx\<lparr> tx_data := \<lparr> Type = ''deploy'', Payload = [] \<rparr> \<rparr>"

definition candidateTx :: Transaction where
  "candidateTx = exampleTx\<lparr> tx_data := \<lparr> Type = ''candidate'', Payload = [] \<rparr> \<rparr>"

definition poorTx :: Transaction where
  "poorTx = exampleTx\<lparr> tx_from := [9] \<rparr>"

definition lowGasTx :: Transaction where
  "lowGasTx = exampleTx\<lparr> tx_gasLimit := 100 \<rparr>"


section \<open>Properties\<close>

subsection \<open>The integer codec\<close>

lemma be_nat_snoc: "be_nat (bs @ [b]) = be_nat bs * 256 + unat b"
  by (simp add: be_nat_def)

lemma length_be_bytes: "length (be_bytes k n) = k"
  by (induction k arbitrary: n) simp_all

lemma be_nat_be_bytes: "be_nat (be_bytes k n) = n mod 256 ^ k"
proof (induction k arbitrary: n)
  case 0
  show ?case by (simp add: be_nat_def)
next
  case (Suc k)
  have b: "unat (of_nat (n mod 256) :: byte) = n mod 256"
    by (simp add: unat_of_nat)
  have "be_nat (be_bytes (Suc k) n) = (n div 256) mod 256 ^ k * 256 + n mod 256"
    by (simp add: be_nat_snoc Suc.IH b)
  also have "\<dots> = n mod 256 ^ Suc k"
    by (simp add: mod_mult2_eq)
  finally show ?case .
qed


lemma ToFixedSizeByteSlice_in_range:
  "0 \<le> u \<Longrightarrow> u < 2 ^ 128 \<Longrightarrow> ToFixedSizeByteSlice u = Inr (be_bytes 16 (nat u))"
  by (simp add: ToFixedSizeByteSlice_def)

lemma ToFixedSizeByteSlice_Inr:
  assumes "ToFixedSizeByteSlice u = Inr bs"
  shows "0 \<le> u \<and> u < 2 ^ 128 \<and> bs = be_bytes 16 (nat u)"
  using assms by (simp add: ToFixedSizeByteSlice_def split: if_splits)

lemma Uint128_roundtrip:
  assumes "ToFixedSizeByteSlice u = Inr bs"
  shows "NewUint128FromFixedSizeByteSlice bs = Inr u"
proof -
  from assms have u: "0 \<le> u" "u < 2 ^ 128" and bs: "bs = be_bytes 16 (nat u)"
    by (simp_all add: ToFixedSizeByteSlice_def split: if_splits)
  have "nat u < 2 ^ 128" using u by (simp add: nat_less_iff)
  then have "nat u mod 256 ^ 16 = nat u" by simp
  then have "be_nat bs = nat u" unfolding bs be_nat_be_bytes .
  then show ?thesis using u
    by (simp add: NewUint128FromFixedSizeByteSlice_def bs length_be_bytes)
qed

lemma alg_roundtrip: "(ucast (ucast (a :: 8 word) :: 32 word) :: 8 word) = a"
  by (rule bit_word_eqI) (auto simp: bit_ucast_iff dest: bit_imp_le_length)


subsection \<open>Canonical hash\<close>

text \<open>
  C1 (as amended). For every transaction whose value, gas price and gas limit lie in
  \<open>0 .. 2^128 - 1\<close> and whose data record serialises without error, \<open>HashTransaction\<close>
  returns the SHA3-256 digest of the concatenation, in this order, of: the from address
  bytes, the to address bytes, the 16-byte big-endian value, the 8-byte big-endian nonce,
  the 8-byte big-endian timestamp, the serialised data record, the 4-byte big-endian chain
  id, the 16-byte big-endian gas price and the 16-byte big-endian gas limit.
\<close>

theorem HashTransaction_digest:
  assumes "0 \<le> tx_value tx" "tx_value tx < 2 ^ 128"
    and "0 \<le> tx_gasPrice tx" "tx_gasPrice tx < 2 ^ 128"
    and "0 \<le> tx_gasLimit tx" "tx_gasLimit tx < 2 ^ 128"
    and "Marshal c (tx_data tx) = Inr dat"
  shows "HashTransaction c tx =
           Inr (sha3_256 c
             (tx_from tx @ tx_to tx @ be_bytes 16 (nat (tx_value tx))
              @ be_bytes 8 (unat (tx_nonce tx)) @ be_bytes 8 (unat (tx_timestamp tx))
              @ dat @ be_bytes 4 (unat (tx_chainID tx))
              @ be_bytes 16 (nat (tx_gasPrice tx)) @ be_bytes 16 (nat (tx_gasLimit tx))))"
  using assms
  by (simp add: HashTransaction_def ToFixedSizeByteSlice_in_range Sha3256_def
      FromUint64_def FromInt64_def FromUint32_def)

text \<open>The theorem at the example transaction, with every hypothesis discharged.\<close>

theorem HashTransaction_digest_witness:
  "HashTransaction exampleCrypto exampleTx =
     Inr (sha3_256 exampleCrypto
       ([1] @ [2] @ be_bytes 16 100 @ be_bytes 8 1 @ be_bytes 8 0
        @ [98, 105, 110, 97, 114, 121] @ be_bytes 4 1
        @ be_bytes 16 1000000 @ be_bytes 16 20000))"
  using HashTransaction_digest [of exampleTx exampleCrypto "[98, 105, 110, 97, 114, 121]"]
  by (simp add: exampleTx_def exampleCrypto_def)

text \<open>
  C1 as stated, for every transaction, fails: a value of \<open>2^128\<close> has no 16-byte
  encoding, \<open>ToFixedSizeByteSlice\<close> fails and \<open>HashTransaction\<close> returns that error and
  no digest.
\<close>

theorem HashTransaction_overflow_counterexample:
  "HashTransaction exampleCrypto overflowTx = Inl ErrUint128Overflow"
  by (simp add: HashTransaction_def overflowTx_def exampleTx_def ToFixedSizeByteSlice_def)

subsection \<open>Integrity\<close>





subsection \<open>Base gas\<close>



subsection \<open>Wire message round trip\<close>

text \<open>
  C10. For every transaction whose value, gas price and gas limit encode to fixed-size
  byte slices without error, \<open>ToProto\<close> succeeds and \<open>FromProto\<close> of its result into any
  receiver succeeds and leaves a transaction equal to the original in every field.
\<close>

theorem ToProto_FromProto_roundtrip:
  assumes "ToFixedSizeByteSlice (tx_value tx) = Inr val"
    and "ToFixedSizeByteSlice (tx_gasPrice tx) = Inr price"
    and "ToFixedSizeByteSlice (tx_gasLimit tx) = Inr limit"
  shows "\<exists>msg. ToProto tx = Inr msg \<and> FromProto fresh msg = (None, tx)"
proof -
  let ?msg = "TransactionMessage
            \<lparr> pb_Hash = tx_hash tx, pb_From = tx_from tx, pb_To = tx_to tx,
              pb_Value = val, pb_Nonce = tx_nonce tx, pb_Timestamp = tx_timestamp tx,
              pb_Data = tx_data tx, pb_ChainId = tx_chainID tx, pb_GasPrice = price,
              pb_GasLimit = limit, pb_Alg = ucast (tx_alg tx), pb_Sign = tx_sign tx \<rparr>"
  have to: "ToProto tx = Inr ?msg"
    using assms by (simp add: ToProto_def)
  have "FromProto fresh ?msg = (None, tx)"
    using assms by (simp add: FromProto_def Uint128_roundtrip alg_roundtrip)
  with to show ?thesis by blast
qed

text \<open>The theorem at the example transaction, decoded into another transaction.\<close>

theorem ToProto_FromProto_roundtrip_witness:
  "\<exists>msg. ToProto exampleTx = Inr msg \<and> FromProto overflowTx msg = (None, exampleTx)"
  using ToProto_FromProto_roundtrip [of exampleTx "be_bytes 16 100" "be_bytes 16 1000000"
      "be_bytes 16 20000" overflowTx]
  by (simp add: exampleTx_def ToFixedSizeByteSlice_def)



subsection \<open>Execution: the block after each step\<close>

lemma accState_AddBalance: "accState (AddBalance a v blk) = (accState blk)(a := accState blk a + v)"
  by (simp add: AddBalance_def)

lemma accState_SubBalance: "accState (SubBalance a v blk) = (accState blk)(a := accState blk a - v)"
  by (simp add: SubBalance_def)

lemma accState_gasConsumption:
  "accState (gasConsumption tx frm cb gas blk) =
     (let s = (accState blk)(frm := accState blk frm - tx_gasPrice tx * gas)
      in s(cb := s cb + tx_gasPrice tx * gas))"
  by (simp add: gasConsumption_def Let_def accState_AddBalance accState_SubBalance)

lemma rest_AddBalance:
  "events (AddBalance a v blk) = events blk"
  "batchLog (AddBalance a v blk) = batchLog blk"
  "openBatches (AddBalance a v blk) = openBatches blk"
  "CoinbaseHash (AddBalance a v blk) = CoinbaseHash blk"
  by (simp_all add: AddBalance_def)

lemma rest_SubBalance:
  "events (SubBalance a v blk) = events blk"
  "batchLog (SubBalance a v blk) = batchLog blk"
  "openBatches (SubBalance a v blk) = openBatches blk"
  "CoinbaseHash (SubBalance a v blk) = CoinbaseHash blk"
  by (simp_all add: SubBalance_def)

lemma rest_gasConsumption:
  "events (gasConsumption tx frm cb gas blk) = events blk"
  "batchLog (gasConsumption tx frm cb gas blk) = batchLog blk"
  "openBatches (gasConsumption tx frm cb gas blk) = openBatches blk"
  by (simp_all add: gasConsumption_def Let_def rest_AddBalance rest_SubBalance)

lemma events_triggerEvent:
  "events (triggerEvent topic tx err blk) =
     events blk @ [(tx_hash tx,
        \<lparr> Topic = topic,
          EventData = (case err of
                         Some e \<Rightarrow> TxErrEvent (case ToProto tx of Inl e' \<Rightarrow> None | Inr m \<Rightarrow> Some m) e
                       | None \<Rightarrow> TxEvent (case ToProto tx of Inl e' \<Rightarrow> None | Inr m \<Rightarrow> Some m)) \<rparr>)]"
  by (simp add: triggerEvent_def recordEvent_def Let_def)

lemma rest_triggerEvent:
  "accState (triggerEvent topic tx err blk) = accState blk"
  "batchLog (triggerEvent topic tx err blk) = batchLog blk"
  "openBatches (triggerEvent topic tx err blk) = openBatches blk"
  by (simp_all add: triggerEvent_def recordEvent_def Let_def)

lemma BeginBatch_ok:
  "beginBatchErr blk = None \<Longrightarrow>
   BeginBatch blk = (None, blk\<lparr> openBatches := accState blk # openBatches blk,
                                 batchLog := batchLog blk @ [OpBeginBatch] \<rparr>)"
  by (simp add: BeginBatch_def)

lemma BeginBatch_err:
  "beginBatchErr blk = Some err \<Longrightarrow> BeginBatch blk = (Some err, blk)"
  by (simp add: BeginBatch_def)

text \<open>The paths of \<open>VerifyExecution\<close>, one lemma each.\<close>

lemma VerifyExecution_insufficient:
  "Balance (tx_from tx) blk < MinBalanceRequired tx \<Longrightarrow>
   VerifyExecution ld tx blk = ((0, Some ErrInsufficientBalance), blk)"
  by (simp add: VerifyExecution_def Let_def)

lemma VerifyExecution_below_base:
  "\<not> Balance (tx_from tx) blk < MinBalanceRequired tx \<Longrightarrow>
   tx_gasLimit tx < GasCountOfTxBase tx \<Longrightarrow>
   VerifyExecution ld tx blk = ((0, Some ErrOutOfGasLimit), blk)"
  by (simp add: VerifyExecution_def Let_def)

lemma VerifyExecution_load_failed:
  "\<not> Balance (tx_from tx) blk < MinBalanceRequired tx \<Longrightarrow>
   \<not> tx_gasLimit tx < GasCountOfTxBase tx \<Longrightarrow>
   LoadPayload ld tx = Inl err \<Longrightarrow>
   VerifyExecution ld tx blk =
     ((GasCountOfTxBase tx, None),
      triggerEvent TopicExecuteTxFailed tx (Some err)
        (gasConsumption tx (tx_from tx) (CoinbaseHash blk) (GasCountOfTxBase tx) blk))"
  by (simp add: VerifyExecution_def Let_def)

lemma VerifyExecution_batch_failed:
  "\<not> Balance (tx_from tx) blk < MinBalanceRequired tx \<Longrightarrow>
   \<not> tx_gasLimit tx < GasCountOfTxBase tx \<Longrightarrow>
   LoadPayload ld tx = Inr payload \<Longrightarrow>
   beginBatchErr blk = Some err \<Longrightarrow>
   VerifyExecution ld tx blk = ((0, Some err), blk)"
  by (simp add: VerifyExecution_def Let_def BeginBatch_err)

lemma VerifyExecution_below_payload_base:
  "\<not> Balance (tx_from tx) blk < MinBalanceRequired tx \<Longrightarrow>
   \<not> tx_gasLimit tx < GasCountOfTxBase tx \<Longrightarrow>
   LoadPayload ld tx = Inr payload \<Longrightarrow>
   beginBatchErr blk = None \<Longrightarrow>
   tx_gasLimit tx < GasCountOfTxBase tx + BaseGasCount payload \<Longrightarrow>
   VerifyExecution ld tx blk =
     ((tx_gasLimit tx, None),
      triggerEvent TopicExecuteTxFailed tx None
        (gasConsumption tx (tx_from tx) (CoinbaseHash blk) (tx_gasLimit tx)
           (blk\<lparr> openBatches := accState blk # openBatches blk,
                  batchLog := batchLog blk @ [OpBeginBatch] \<rparr>)))"
  by (simp add: VerifyExecution_def Let_def BeginBatch_ok)

lemma VerifyExecution_execute_failed:
  "\<not> Balance (tx_from tx) blk < MinBalanceRequired tx \<Longrightarrow>
   \<not> tx_gasLimit tx < GasCountOfTxBase tx \<Longrightarrow>
   LoadPayload ld tx = Inr payload \<Longrightarrow>
   beginBatchErr blk = None \<Longrightarrow>
   \<not> tx_gasLimit tx < GasCountOfTxBase tx + BaseGasCount payload \<Longrightarrow>
   Execute payload tx (accState blk) = ((gasExecution, Some err), st) \<Longrightarrow>
   VerifyExecution ld tx blk =
     ((GasCountOfTxBase tx + BaseGasCount payload + gasExecution, None),
      triggerEvent TopicExecuteTxFailed tx (Some err)
        (gasConsumption tx (tx_from tx) (CoinbaseHash blk)
           (GasCountOfTxBase tx + BaseGasCount payload + gasExecution)
           (blk\<lparr> batchLog := batchLog blk @ [OpBeginBatch, OpRollBack] \<rparr>)))"
  by (simp add: VerifyExecution_def Let_def BeginBatch_ok RollBack_def)

lemma VerifyExecution_executed:
  "\<not> Balance (tx_from tx) blk < MinBalanceRequired tx \<Longrightarrow>
   \<not> tx_gasLimit tx < GasCountOfTxBase tx \<Longrightarrow>
   LoadPayload ld tx = Inr payload \<Longrightarrow>
   beginBatchErr blk = None \<Longrightarrow>
   \<not> tx_gasLimit tx < GasCountOfTxBase tx + BaseGasCount payload \<Longrightarrow>
   Execute payload tx (accState blk) = ((gasExecution, None), st) \<Longrightarrow>
   block4 = gasConsumption tx (tx_from tx) (CoinbaseHash blk)
              (GasCountOfTxBase tx + BaseGasCount payload + gasExecution)
              (blk\<lparr> accState := st, batchLog := batchLog blk @ [OpBeginBatch, OpCommit] \<rparr>) \<Longrightarrow>
   VerifyExecution ld tx blk =
     ((GasCountOfTxBase tx + BaseGasCount payload + gasExecution, None),
      (if Balance (tx_from tx) block4 < tx_value tx
       then triggerEvent TopicExecuteTxFailed tx (Some ErrInsufficientBalance) block4
       else triggerEvent TopicExecuteTxSuccess tx None
              (AddBalance (tx_to tx) (tx_value tx)
                 (SubBalance (tx_from tx) (tx_value tx) block4))))"
  by (simp add: VerifyExecution_def Let_def BeginBatch_ok Commit_def)


lemmas example_defs =
  exampleTx_def exampleBlock_def exampleLoaders_def transferPayload_def deployPayload_def
  callPayload_def candidatePayload_def selfTx_def deployTx_def candidateTx_def poorTx_def
  lowGasTx_def failingBatchBlock_def

lemmas gas_defs =
  Balance_def MinBalanceRequired_def GasCountOfTxBase_def DataLen_def
  MinGasCountPerTransaction_def GasCountPerByte_def

lemmas payload_type_defs =
  LoadPayload_def TxPayloadBinaryType_def TxPayloadDeployType_def TxPayloadCallType_def
  TxPayloadCandidateType_def TxPayloadDelegateType_def

lemma exampleTx_path:
  "LoadPayload exampleLoaders exampleTx = Inr transferPayload"
  "LoadPayload exampleLoaders selfTx = Inr transferPayload"
  "LoadPayload exampleLoaders deployTx = Inr deployPayload"
  "LoadPayload exampleLoaders candidateTx = Inr candidatePayload"
  by (simp_all add: payload_type_defs example_defs)

lemma exampleTx_fields:
  "tx_hash exampleTx = exampleHash" "tx_from exampleTx = [1]" "tx_to exampleTx = [2]"
  "tx_value exampleTx = 100" "tx_gasPrice exampleTx = 1000000"
  "tx_gasLimit exampleTx = 20000" "GasCountOfTxBase exampleTx = 20000"
  "MinBalanceRequired exampleTx = 20000000000"
  by (simp_all add: exampleTx_def gas_defs)

lemma exampleBlock_fields:
  "CoinbaseHash exampleBlock = [3]" "beginBatchErr exampleBlock = None"
  "events exampleBlock = []" "batchLog exampleBlock = []" "openBatches exampleBlock = []"
  "accState exampleBlock [1] = 1000000000000" "accState exampleBlock [2] = 0"
  "accState exampleBlock [3] = 0" "Balance [1] exampleBlock = 1000000000000"
  by (simp_all add: exampleBlock_def Balance_def)

lemma examplePayload_fields:
  "BaseGasCount transferPayload = 0"
  "Execute transferPayload tx st = ((0, None), st)"
  "BaseGasCount deployPayload = 0"
  "Execute deployPayload tx st = ((5, None), st)"
  "BaseGasCount candidatePayload = 20000"
  by (simp_all add: transferPayload_def deployPayload_def candidatePayload_def)

lemma candidateTx_fields:
  "tx_hash candidateTx = exampleHash" "tx_from candidateTx = [1]"
  "tx_gasLimit candidateTx = 20000" "tx_gasPrice candidateTx = 1000000"
  "GasCountOfTxBase candidateTx = 20000" "MinBalanceRequired candidateTx = 20000000000"
  by (simp_all add: candidateTx_def exampleTx_def gas_defs)

lemma candidateTx_run:
  "VerifyExecution exampleLoaders candidateTx exampleBlock =
     ((20000, None),
      triggerEvent TopicExecuteTxFailed candidateTx None
        (gasConsumption candidateTx [1] [3] 20000
           (exampleBlock\<lparr> openBatches := accState exampleBlock # openBatches exampleBlock,
                  batchLog := batchLog exampleBlock @ [OpBeginBatch] \<rparr>)))"
  using VerifyExecution_below_payload_base [of candidateTx exampleBlock exampleLoaders
      candidatePayload, OF _ _ exampleTx_path(4) exampleBlock_fields(2)]
  by (simp add: candidateTx_fields exampleBlock_fields examplePayload_fields)

subsection \<open>Pre-flight rejection\<close>




subsection \<open>Value settlement\<close>

text \<open>
  C3 (as amended). Whenever \<open>VerifyExecution\<close> reaches the successful value-settlement
  branch and the from, to and coinbase addresses are pairwise distinct, then, measured
  from the balances \<open>st\<close> left by the payload's execution (the balances before the call
  when the payload changes none), the from balance decreases by exactly value plus gas
  price times gas, the to balance increases by exactly value and the coinbase balance
  increases by exactly gas price times gas; the changes of from and to add up to minus gas
  price times gas.
\<close>

theorem VerifyExecution_settlement_balances:
  assumes "\<not> Balance (tx_from tx) blk < MinBalanceRequired tx"
    and "\<not> tx_gasLimit tx < GasCountOfTxBase tx"
    and "LoadPayload ld tx = Inr payload"
    and "beginBatchErr blk = None"
    and "\<not> tx_gasLimit tx < GasCountOfTxBase tx + BaseGasCount payload"
    and "Execute payload tx (accState blk) = ((gasExecution, None), st)"
    and "gas = GasCountOfTxBase tx + BaseGasCount payload + gasExecution"
    and "tx_value tx \<le> st (tx_from tx) - tx_gasPrice tx * gas"
    and "tx_from tx \<noteq> tx_to tx"
    and "tx_from tx \<noteq> CoinbaseHash blk"
    and "tx_to tx \<noteq> CoinbaseHash blk"
  shows "fst (VerifyExecution ld tx blk) = (gas, None) \<and>
         accState (snd (VerifyExecution ld tx blk)) (tx_from tx)
           = st (tx_from tx) - (tx_value tx + tx_gasPrice tx * gas) \<and>
         accState (snd (VerifyExecution ld tx blk)) (tx_to tx)
           = st (tx_to tx) + tx_value tx \<and>
         accState (snd (VerifyExecution ld tx blk)) (CoinbaseHash blk)
           = st (CoinbaseHash blk) + tx_gasPrice tx * gas \<and>
         (accState (snd (VerifyExecution ld tx blk)) (tx_from tx) - st (tx_from tx))
           + (accState (snd (VerifyExecution ld tx blk)) (tx_to tx) - st (tx_to tx))
           = - (tx_gasPrice tx * gas)"
proof -
  define block4 where
    "block4 = gasConsumption tx (tx_from tx) (CoinbaseHash blk) gas
                (blk\<lparr> accState := st, batchLog := batchLog blk @ [OpBeginBatch, OpCommit] \<rparr>)"
  have b4: "accState block4 =
              (st(tx_from tx := st (tx_from tx) - tx_gasPrice tx * gas))
                (CoinbaseHash blk := st (CoinbaseHash blk) + tx_gasPrice tx * gas)"
    using assms(10) by (simp add: block4_def accState_gasConsumption Let_def)
  have enough: "\<not> Balance (tx_from tx) block4 < tx_value tx"
    using assms(8,10) by (simp add: Balance_def b4)
  have run: "VerifyExecution ld tx blk =
               ((gas, None),
                triggerEvent TopicExecuteTxSuccess tx None
                  (AddBalance (tx_to tx) (tx_value tx)
                     (SubBalance (tx_from tx) (tx_value tx) block4)))"
    using VerifyExecution_executed [OF assms(1-6), of block4] enough
    by (simp add: block4_def assms(7))
  have final: "accState (snd (VerifyExecution ld tx blk)) =
                 ((accState block4)(tx_from tx := accState block4 (tx_from tx) - tx_value tx))
                   (tx_to tx := accState block4 (tx_to tx) + tx_value tx)"
    using assms(9)
    by (simp add: run rest_triggerEvent accState_AddBalance accState_SubBalance)
  have f: "accState (snd (VerifyExecution ld tx blk)) (tx_from tx)
             = st (tx_from tx) - (tx_value tx + tx_gasPrice tx * gas)"
    using assms(9,10) by (simp add: final b4)
  have t: "accState (snd (VerifyExecution ld tx blk)) (tx_to tx) = st (tx_to tx) + tx_value tx"
    using assms(9,11) by (simp add: final b4)
  have c: "accState (snd (VerifyExecution ld tx blk)) (CoinbaseHash blk)
             = st (CoinbaseHash blk) + tx_gasPrice tx * gas"
    using assms(10,11) by (simp add: final b4)
  show ?thesis
    by (simp add: f t c) (simp add: run)
qed

text \<open>The theorem at the example transfer of 100 from \<open>[1]\<close> to \<open>[2]\<close>, coinbase \<open>[3]\<close>.\<close>

theorem VerifyExecution_settlement_balances_witness:
  "fst (VerifyExecution exampleLoaders exampleTx exampleBlock) = (20000, None) \<and>
   accState (snd (VerifyExecution exampleLoaders exampleTx exampleBlock)) [1]
     = 1000000000000 - (100 + 1000000 * 20000) \<and>
   accState (snd (VerifyExecution exampleLoaders exampleTx exampleBlock)) [2] = 0 + 100 \<and>
   accState (snd (VerifyExecution exampleLoaders exampleTx exampleBlock)) [3]
     = 0 + 1000000 * 20000"
proof -
  have h1: "\<not> Balance (tx_from exampleTx) exampleBlock < MinBalanceRequired exampleTx"
    by (simp add: exampleTx_fields exampleBlock_fields)
  have h2: "\<not> tx_gasLimit exampleTx < GasCountOfTxBase exampleTx"
    by (simp add: exampleTx_fields)
  have h5: "\<not> tx_gasLimit exampleTx < GasCountOfTxBase exampleTx + BaseGasCount transferPayload"
    by (simp add: exampleTx_fields examplePayload_fields)
  have h6: "Execute transferPayload exampleTx (accState exampleBlock)
              = ((0, None), accState exampleBlock)"
    by (simp add: examplePayload_fields)
  have h7: "20000 = GasCountOfTxBase exampleTx + BaseGasCount transferPayload + 0"
    by (simp add: exampleTx_fields examplePayload_fields)
  have h8: "tx_value exampleTx
              \<le> accState exampleBlock (tx_from exampleTx) - tx_gasPrice exampleTx * 20000"
    by (simp add: exampleTx_fields exampleBlock_fields)
  have h9: "tx_from exampleTx \<noteq> tx_to exampleTx"
    and h10: "tx_from exampleTx \<noteq> CoinbaseHash exampleBlock"
    and h11: "tx_to exampleTx \<noteq> CoinbaseHash exampleBlock"
    by (simp_all add: exampleTx_fields exampleBlock_fields)
  show ?thesis
    using VerifyExecution_settlement_balances [OF h1 h2 exampleTx_path(1)
        exampleBlock_fields(2) h5 h6 h7 h8 h9 h10 h11]
    by (simp add: exampleTx_fields exampleBlock_fields)
qed

text \<open>
  C3 as stated fails when an address repeats: a transfer from \<open>[1]\<close> to \<open>[1]\<close> reaches the
  success branch, and the one account loses the gas cost only, not value plus gas cost.
\<close>

theorem VerifyExecution_self_transfer_counterexample:
  "fst (VerifyExecution exampleLoaders selfTx exampleBlock) = (20000, None) \<and>
   map (\<lambda>(h, ev). Topic ev) (events (snd (VerifyExecution exampleLoaders selfTx exampleBlock)))
     = [TopicExecuteTxSuccess] \<and>
   accState exampleBlock (tx_from selfTx)
     - accState (snd (VerifyExecution exampleLoaders selfTx exampleBlock)) (tx_from selfTx)
     = tx_gasPrice selfTx * 20000 \<and>
   accState exampleBlock (tx_from selfTx)
     - accState (snd (VerifyExecution exampleLoaders selfTx exampleBlock)) (tx_from selfTx)
     \<noteq> tx_value selfTx + tx_gasPrice selfTx * 20000"
proof -
  have run: "VerifyExecution exampleLoaders selfTx exampleBlock =
               ((20000, None),
                triggerEvent TopicExecuteTxSuccess selfTx None
                  (AddBalance [1] 100 (SubBalance [1] 100
                     (gasConsumption selfTx [1] [3] 20000
                        (exampleBlock\<lparr> accState := accState exampleBlock,
                            batchLog := batchLog exampleBlock @ [OpBeginBatch, OpCommit] \<rparr>)))))"
    using VerifyExecution_executed [of selfTx exampleBlock exampleLoaders transferPayload 0
        "accState exampleBlock", OF _ _ exampleTx_path(2) _ _ _ refl]
    by (simp add: selfTx_def exampleTx_def exampleBlock_def transferPayload_def gas_defs
        accState_gasConsumption Let_def)
  show ?thesis
    by (simp add: run events_triggerEvent rest_AddBalance rest_SubBalance rest_gasConsumption
        rest_triggerEvent accState_AddBalance accState_SubBalance accState_gasConsumption
        Let_def)
      (simp add: selfTx_def exampleTx_def exampleBlock_def)
qed


subsection \<open>Charged gas\<close>





subsection \<open>Payload base gas above the limit\<close>

text \<open>
  C5. A candidate transaction with gas limit 20000 decodes, and its base gas with the
  payload's is 40000: \<open>VerifyExecution\<close> returns the gas limit and no error and records an
  \<open>ExecuteTxFailed\<close> event, but the event is the plain transaction event: the error
  handed to \<open>triggerEvent\<close> is the nil error left by \<open>BeginBatch\<close>, not
  \<open>ErrOutOfGasLimit\<close>.
\<close>

theorem VerifyExecution_payload_base_event_without_error:
  "tx_gasLimit candidateTx = 20000 \<and>
   GasCountOfTxBase candidateTx + BaseGasCount candidatePayload = 40000 \<and>
   LoadPayload exampleLoaders candidateTx = Inr candidatePayload \<and>
   fst (VerifyExecution exampleLoaders candidateTx exampleBlock) = (20000, None) \<and>
   events (snd (VerifyExecution exampleLoaders candidateTx exampleBlock)) =
     [(tx_hash candidateTx,
       \<lparr> Topic = TopicExecuteTxFailed,
         EventData = TxEvent (case ToProto candidateTx of Inl e \<Rightarrow> None | Inr m \<Rightarrow> Some m) \<rparr>)]"
  by (simp add: candidateTx_run events_triggerEvent rest_gasConsumption exampleTx_path
      candidateTx_fields examplePayload_fields exampleBlock_fields)

subsection \<open>Batch balance\<close>

lemma VerifyExecution_batch_closed_after_execute:
  assumes "\<not> Balance (tx_from tx) blk < MinBalanceRequired tx"
    and "\<not> tx_gasLimit tx < GasCountOfTxBase tx"
    and "LoadPayload ld tx = Inr payload"
    and "beginBatchErr blk = None"
    and "\<not> tx_gasLimit tx < GasCountOfTxBase tx + BaseGasCount payload"
    and "Execute payload tx (accState blk) = ((gasExecution, err), st)"
  shows "batchLog (snd (VerifyExecution ld tx blk)) =
           batchLog blk @ [OpBeginBatch, (case err of Some e \<Rightarrow> OpRollBack | None \<Rightarrow> OpCommit)] \<and>
         openBatches (snd (VerifyExecution ld tx blk)) = openBatches blk"
proof (cases err)
  case None
  show ?thesis
    using VerifyExecution_executed [OF assms(1-5), of gasExecution st, OF _ refl] assms(6)
    by (simp add: None rest_triggerEvent rest_AddBalance rest_SubBalance rest_gasConsumption)
next
  case (Some e)
  show ?thesis
    using VerifyExecution_execute_failed [OF assms(1-5), of gasExecution e st] assms(6)
    by (simp add: Some rest_triggerEvent rest_gasConsumption)
qed

lemma VerifyExecution_batch_left_open:
  assumes "\<not> Balance (tx_from tx) blk < MinBalanceRequired tx"
    and "\<not> tx_gasLimit tx < GasCountOfTxBase tx"
    and "LoadPayload ld tx = Inr payload"
    and "beginBatchErr blk = None"
    and "tx_gasLimit tx < GasCountOfTxBase tx + BaseGasCount payload"
  shows "batchLog (snd (VerifyExecution ld tx blk)) = batchLog blk @ [OpBeginBatch] \<and>
         openBatches (snd (VerifyExecution ld tx blk)) = accState blk # openBatches blk"
  using VerifyExecution_below_payload_base [OF assms]
  by (simp add: rest_triggerEvent rest_gasConsumption)

text \<open>
  C7. On the same transaction the batch opened by \<open>BeginBatch\<close> is still open when
  \<open>VerifyExecution\<close> returns: the return for a payload base gas above the limit comes
  before both \<open>RollBack\<close> and \<open>Commit\<close>.
\<close>

theorem VerifyExecution_payload_base_batch_open:
  "batchLog exampleBlock = [] \<and> openBatches exampleBlock = [] \<and>
   fst (VerifyExecution exampleLoaders candidateTx exampleBlock) = (20000, None) \<and>
   batchLog (snd (VerifyExecution exampleLoaders candidateTx exampleBlock)) = [OpBeginBatch] \<and>
   openBatches (snd (VerifyExecution exampleLoaders candidateTx exampleBlock))
     = [accState exampleBlock]"
  by (simp add: candidateTx_run rest_triggerEvent rest_gasConsumption exampleBlock_fields)

subsection \<open>Events\<close>

lemma topics_differ: "TopicExecuteTxSuccess \<noteq> TopicExecuteTxFailed"
  by (simp add: TopicExecuteTxSuccess_def TopicExecuteTxFailed_def)

text \<open>
  C9 (as amended). A call of \<open>VerifyExecution\<close> records no event when it is rejected
  pre-flight (insufficient balance, gas limit below the base gas) or when, after the
  payload decoded, \<open>BeginBatch\<close> fails; every other call records exactly one event, under
  the transaction's hash, whose topic is \<open>ExecuteTxSuccess\<close> or \<open>ExecuteTxFailed\<close> and not
  both.
\<close>

theorem VerifyExecution_one_event:
  "if Balance (tx_from tx) blk < MinBalanceRequired tx
      \<or> tx_gasLimit tx < GasCountOfTxBase tx
      \<or> ((\<exists>payload. LoadPayload ld tx = Inr payload) \<and> (\<exists>err. beginBatchErr blk = Some err))
   then events (snd (VerifyExecution ld tx blk)) = events blk
   else (\<exists>ev. events (snd (VerifyExecution ld tx blk)) = events blk @ [(tx_hash tx, ev)]
             \<and> (Topic ev = TopicExecuteTxSuccess \<or> Topic ev = TopicExecuteTxFailed)
             \<and> (Topic ev = TopicExecuteTxSuccess) \<noteq> (Topic ev = TopicExecuteTxFailed))"
proof (cases "Balance (tx_from tx) blk < MinBalanceRequired tx")
  case True
  then show ?thesis by (simp add: VerifyExecution_insufficient)
next
  case bal: False
  show ?thesis
  proof (cases "tx_gasLimit tx < GasCountOfTxBase tx")
    case True
    with bal show ?thesis by (simp add: VerifyExecution_below_base)
  next
    case lim: False
    show ?thesis
    proof (cases "LoadPayload ld tx")
      case (Inl err)
      show ?thesis
        using bal lim Inl topics_differ
        by (simp add: VerifyExecution_load_failed [OF bal lim Inl] events_triggerEvent
            rest_gasConsumption)
    next
      case (Inr payload)
      show ?thesis
      proof (cases "beginBatchErr blk")
        case (Some err)
        show ?thesis
          using bal lim Inr Some
          by (simp add: VerifyExecution_batch_failed [OF bal lim Inr Some])
      next
        case None
        show ?thesis
        proof (cases "tx_gasLimit tx < GasCountOfTxBase tx + BaseGasCount payload")
          case True
          show ?thesis
            using bal lim Inr None topics_differ
            by (simp add: VerifyExecution_below_payload_base [OF bal lim Inr None True]
                events_triggerEvent rest_gasConsumption)
        next
          case pl: False
          obtain gasExecution err st
            where ex: "Execute payload tx (accState blk) = ((gasExecution, err), st)"
            by (metis surj_pair)
          show ?thesis
          proof (cases err)
            case None': None
            show ?thesis
              using bal lim Inr None topics_differ
              by (simp add: VerifyExecution_executed
                    [OF bal lim Inr None pl ex [unfolded None'] refl]
                  events_triggerEvent rest_gasConsumption rest_AddBalance rest_SubBalance)
          next
            case (Some e)
            show ?thesis
              using bal lim Inr None topics_differ
              by (simp add: VerifyExecution_execute_failed
                    [OF bal lim Inr None pl ex [unfolded Some]]
                  events_triggerEvent rest_gasConsumption)
          qed
        qed
      qed
    qed
  qed
qed

text \<open>The theorem at the example transfer: one event.\<close>

theorem VerifyExecution_one_event_witness:
  "\<exists>ev. events (snd (VerifyExecution exampleLoaders exampleTx exampleBlock))
            = [(exampleHash, ev)]
        \<and> (Topic ev = TopicExecuteTxSuccess \<or> Topic ev = TopicExecuteTxFailed)
        \<and> (Topic ev = TopicExecuteTxSuccess) \<noteq> (Topic ev = TopicExecuteTxFailed)"
  using VerifyExecution_one_event [of exampleTx exampleBlock exampleLoaders]
  by (simp add: exampleTx_fields exampleBlock_fields)

text \<open>
  C9 as stated fails: past the pre-flight checks and the decoding, a failing
  \<open>BeginBatch\<close> makes \<open>VerifyExecution\<close> return its error with no event recorded.
\<close>

theorem VerifyExecution_batch_failure_counterexample:
  "\<not> Balance (tx_from exampleTx) failingBatchBlock < MinBalanceRequired exampleTx \<and>
   \<not> tx_gasLimit exampleTx < GasCountOfTxBase exampleTx \<and>
   LoadPayload exampleLoaders exampleTx = Inr transferPayload \<and>
   fst (VerifyExecution exampleLoaders exampleTx failingBatchBlock)
     = (0, Some (ExternalError ''batch in progress'')) \<and>
   events (snd (VerifyExecution exampleLoaders exampleTx failingBatchBlock)) = []"
proof -
  have b: "Balance [1] failingBatchBlock = 1000000000000"
    "beginBatchErr failingBatchBlock = Some (ExternalError ''batch in progress'')"
    "events failingBatchBlock = []"
    by (simp_all add: failingBatchBlock_def exampleBlock_def Balance_def)
  have h1: "\<not> Balance (tx_from exampleTx) failingBatchBlock < MinBalanceRequired exampleTx"
    by (simp add: exampleTx_fields b)
  have h2: "\<not> tx_gasLimit exampleTx < GasCountOfTxBase exampleTx"
    by (simp add: exampleTx_fields)
  show ?thesis
    using h1 h2
    by (simp add: VerifyExecution_batch_failed [OF h1 h2 exampleTx_path(1) b(2)]
        exampleTx_path b)
qed


end
